theory Spec2Isabelle
  imports Main
begin

section \<open>Entities and boundary data\<close>

text \<open>
  The entity of \<^verbatim>\<open>entities/user.ts\<close>:
  \<^verbatim>\<open>class User { constructor(public id: string, public username: string, public password: string) {} }\<close>.
  Several classes of the program have a field called \<^verbatim>\<open>id\<close> or \<^verbatim>\<open>username\<close>; the
  record fields carry the class as a prefix to keep them apart.
\<close>

record User =
  user_id :: string
  user_username :: string
  user_password :: string

text \<open>
  Modelled from the spec: the file that declares \<^verbatim>\<open>InputData\<close>
  (\<^verbatim>\<open>use-cases/input-data.ts\<close>) is not among the sources; the README shows it with an
  \<^verbatim>\<open>id\<close> and an optional \<^verbatim>\<open>username\<close>. The spec gives the write request three
  fields (identifier, displayName, secret) and the read request one, and \<^verbatim>\<open>Interactor\<close>
  reads \<^verbatim>\<open>inputData.id\<close>, \<^verbatim>\<open>inputData.username\<close> and \<^verbatim>\<open>inputData.password\<close>. The
  payload therefore has the three properties, each possibly absent: a property that an
  object literal such as \<^verbatim>\<open>{ id }\<close> or \<^verbatim>\<open>{ id, username }\<close> leaves out reads as
  \<^verbatim>\<open>undefined\<close>, which is \<open>None\<close> here.
\<close>

record InputData =
  in_id :: "string option"
  in_username :: "string option"
  in_password :: "string option"

text \<open>\<^verbatim>\<open>OutputData\<close>: the object literal \<^verbatim>\<open>{ id: user.id, username: user.username }\<close>.\<close>

record OutputData =
  out_id :: string
  out_username :: string

text \<open>
  \<^verbatim>\<open>ViewModel\<close>: \<^verbatim>\<open>main.ts\<close> creates it as \<^verbatim>\<open>{}\<close>, so both properties start out
  undefined. Whatever else a view model object holds is the record's extension part
  (\<open>ViewModel.more\<close>).
\<close>

record ViewModel =
  vm_id :: "string option"
  vm_username :: "string option"

text \<open>\<^verbatim>\<open>new Error(message)\<close>: the only exception class the program throws.\<close>

datatype error = Error string

text \<open>
  JavaScript's \<^verbatim>\<open>!x\<close> for a value that is a string or \<^verbatim>\<open>undefined\<close>: true for
  \<^verbatim>\<open>undefined\<close> and for the empty string, false for every other string.
\<close>

fun falsy :: "string option \<Rightarrow> bool" where
  "falsy None = True"
| "falsy (Some s) = (s = [])"

section \<open>Frameworks and drivers: the in-memory database\<close>

text \<open>
  \<^verbatim>\<open>Database<T>\<close> holds \<^verbatim>\<open>items: T[]\<close>. \<^verbatim>\<open>get\<close> is
  \<^verbatim>\<open>items.find(item => item.id === id)\<close>, the first element in array order whose id is
  the one asked for, and throws \<^verbatim>\<open>Error("Item not found")\<close> when \<^verbatim>\<open>find\<close> gives
  \<^verbatim>\<open>undefined\<close> (a stored object is never falsy). \<^verbatim>\<open>create\<close> is \<^verbatim>\<open>items.push(item)\<close>.
\<close>

definition Database_get :: "User list \<Rightarrow> string \<Rightarrow> error + User" where
  "Database_get xs i =
     (case find (\<lambda>item. user_id item = i) xs of
        None \<Rightarrow> Inl (Error ''Item not found'')
      | Some item \<Rightarrow> Inr item)"

definition Database_create :: "User list \<Rightarrow> User \<Rightarrow> User list" where
  "Database_create xs item = xs @ [item]"

section \<open>The wired system and its observable calls\<close>

text \<open>
  \<^verbatim>\<open>main.ts\<close> builds one \<^verbatim>\<open>Database\<close>, one \<^verbatim>\<open>Repository\<close> over it, one
  \<^verbatim>\<open>ViewModel\<close> object, one \<^verbatim>\<open>Presenter\<close> holding that object, and one
  \<^verbatim>\<open>Interactor\<close> over the repository and the presenter. The mutable state of the
  program is therefore the array \<open>items\<close> and the object \<open>viewModel\<close>.

  \<open>calls\<close> is a ghost field: the calls the interactor has made on its two collaborators,
  oldest first, as a spy on \<^verbatim>\<open>RepositoryInterface\<close> and \<^verbatim>\<open>PresenterInterface\<close> would
  record them. No operation reads it.
\<close>

datatype call = GetUser string | CreateUser User | Present OutputData

record system =
  items :: "User list"
  viewModel :: ViewModel
  calls :: "call list"

definition initial :: system where
  "initial = \<lparr>items = [], viewModel = \<lparr>vm_id = None, vm_username = None\<rparr>, calls = []\<rparr>"

section \<open>Interface adapters: repository and presenter\<close>

text \<open>
  \<^verbatim>\<open>Repository.getUser(id)\<close> returns \<^verbatim>\<open>this.database.get(id)\<close>;
  \<^verbatim>\<open>Repository.createUser(user)\<close> is \<^verbatim>\<open>this.database.create(user)\<close>. An exception of
  \<^verbatim>\<open>get\<close> passes through uncaught: it is the \<open>Inl\<close> of the result.
\<close>

definition Repository_getUser :: "string \<Rightarrow> system \<Rightarrow> (error + User) \<times> system" where
  "Repository_getUser i s = (Database_get (items s) i, s\<lparr>calls := calls s @ [GetUser i]\<rparr>)"

definition Repository_createUser :: "User \<Rightarrow> system \<Rightarrow> system" where
  "Repository_createUser user s =
     s\<lparr>items := Database_create (items s) user, calls := calls s @ [CreateUser user]\<rparr>"

text \<open>
  \<^verbatim>\<open>Presenter.present\<close>: two assignments to the view model the presenter was built with,
  \<^verbatim>\<open>viewModel.id = outputData.id; viewModel.username = outputData.username\<close>.
\<close>

definition present :: "OutputData \<Rightarrow> 'a ViewModel_scheme \<Rightarrow> 'a ViewModel_scheme" where
  "present outputData vm =
     vm\<lparr>vm_id := Some (out_id outputData), vm_username := Some (out_username outputData)\<rparr>"

definition Presenter_present :: "OutputData \<Rightarrow> system \<Rightarrow> system" where
  "Presenter_present outputData s =
     s\<lparr>viewModel := present outputData (viewModel s), calls := calls s @ [Present outputData]\<rparr>"

section \<open>Use cases: the interactor\<close>

text \<open>
  Both operations return \<^verbatim>\<open>void\<close> or throw. The result is the exception, if any
  (\<open>None\<close> for a normal return), with the state the call leaves behind: what was done
  before a \<^verbatim>\<open>throw\<close> stays done.

  \<open>the (in_id inputData)\<close> is only reached when \<open>in_id inputData\<close> is not falsy, hence
  some non-empty string; likewise for the other two fields.
\<close>

definition executeGetUser :: "InputData \<Rightarrow> system \<Rightarrow> error option \<times> system" where
  "executeGetUser inputData s =
     (if falsy (in_id inputData) then (Some (Error ''id is required''), s)
      else
        (case Repository_getUser (the (in_id inputData)) s of
           (Inl e, s') \<Rightarrow> (Some e, s')
         | (Inr user, s') \<Rightarrow>
             (None,
              Presenter_present \<lparr>out_id = user_id user, out_username = user_username user\<rparr> s')))"

definition executeCreateUser :: "InputData \<Rightarrow> system \<Rightarrow> error option \<times> system" where
  "executeCreateUser inputData s =
     (if falsy (in_id inputData) then (Some (Error ''id is required''), s)
      else if falsy (in_password inputData) then (Some (Error ''password is required''), s)
      else if falsy (in_username inputData) then (Some (Error ''username is required''), s)
      else
        (let user = \<lparr>user_id = the (in_id inputData),
                     user_username = the (in_username inputData),
                     user_password = the (in_password inputData)\<rparr>;
             s' = Repository_createUser user s
         in (None,
             Presenter_present \<lparr>out_id = user_id user, out_username = user_username user\<rparr> s')))"

section \<open>Interface adapters: the controller\<close>

text \<open>
  \<^verbatim>\<open>Controller.getUser(id)\<close> passes \<^verbatim>\<open>{ id }\<close> to \<^verbatim>\<open>executeGetUser\<close>;
  \<^verbatim>\<open>Controller.createUser(id, username)\<close> passes \<^verbatim>\<open>{ id, username }\<close> to
  \<^verbatim>\<open>executeCreateUser\<close>. Neither has a parameter for the password.
\<close>

definition Controller_getUser :: "string \<Rightarrow> system \<Rightarrow> error option \<times> system" where
  "Controller_getUser i s =
     executeGetUser \<lparr>in_id = Some i, in_username = None, in_password = None\<rparr> s"

definition Controller_createUser :: "string \<Rightarrow> string \<Rightarrow> system \<Rightarrow> error option \<times> system" where
  "Controller_createUser i u s =
     executeCreateUser \<lparr>in_id = Some i, in_username = Some u, in_password = None\<rparr> s"

section \<open>Sequences of operations\<close>

text \<open>
  A caller issues operations one after the other on the same wired objects. \<open>exec\<close> is
  one operation; \<open>steps\<close> runs a list of them in order, going on after an operation that
  threw (the caller caught the exception), so a failed operation contributes whatever
  state it left.
\<close>

datatype operation = GetOp InputData | CreateOp InputData

fun exec :: "operation \<Rightarrow> system \<Rightarrow> error option \<times> system" where
  "exec (GetOp inputData) s = executeGetUser inputData s"
| "exec (CreateOp inputData) s = executeCreateUser inputData s"

fun steps :: "operation list \<Rightarrow> system \<Rightarrow> system" where
  "steps [] s = s"
| "steps (op # ops) s = steps ops (snd (exec op s))"

text \<open>What the spy saw: the calls an operation added to the log, and counts over them.\<close>

definition issued :: "operation \<Rightarrow> system \<Rightarrow> call list" where
  "issued op s = drop (length (calls s)) (calls (snd (exec op s)))"

fun is_Present :: "call \<Rightarrow> bool" where
  "is_Present (Present _) = True"
| "is_Present _ = False"

fun is_CreateUser :: "call \<Rightarrow> bool" where
  "is_CreateUser (CreateUser _) = True"
| "is_CreateUser _ = False"

fun presented :: "call list \<Rightarrow> OutputData list" where
  "presented [] = []"
| "presented (Present outputData # cs) = outputData # presented cs"
| "presented (_ # cs) = presented cs"

text \<open>
  What of a stored record may leave the interactor: its id and its username. Two stores
  with the same \<open>map public\<close> differ at most in the passwords they hold.
\<close>

definition public :: "User \<Rightarrow> string \<times> string" where
  "public user = (user_id user, user_username user)"

text \<open>\<open>inserts i op\<close>: the operation is a write request for the identifier \<open>i\<close>.\<close>

fun inserts :: "string \<Rightarrow> operation \<Rightarrow> bool" where
  "inserts i (CreateOp d) = (in_id d = Some i)"
| "inserts i (GetOp d) = False"

section \<open>Basic facts\<close>

lemmas program_defs =
  executeGetUser_def executeCreateUser_def Repository_getUser_def Repository_createUser_def
  Presenter_present_def present_def Database_get_def Database_create_def
  Controller_getUser_def Controller_createUser_def issued_def initial_def public_def Let_def

lemma falsy_iff: "falsy v \<longleftrightarrow> v = None \<or> v = Some []"
  by (cases v) auto

lemma find_None_set: "find P xs = None \<longleftrightarrow> (\<forall>x\<in>set xs. \<not> P x)"
  by (induction xs) auto

subsection \<open>The database: absent identifiers and the first match\<close>

lemma Database_get_missing:
  "\<forall>r\<in>set xs. user_id r \<noteq> i \<Longrightarrow> Database_get xs i = Inl (Error ''Item not found'')"
  by (simp add: Database_get_def find_None_set split: option.splits)

lemma Database_get_first:
  "\<forall>r\<in>set ys. user_id r \<noteq> i \<Longrightarrow> user_id u = i \<Longrightarrow> Database_get (ys @ u # zs) i = Inr u"
  by (induction ys) (auto simp: Database_get_def)

lemma Database_get_cases:
  "(Database_get xs i = Inl (Error ''Item not found'') \<and> (\<forall>r\<in>set xs. user_id r \<noteq> i))
   \<or> (\<exists>ys u zs. xs = ys @ u # zs \<and> user_id u = i \<and> (\<forall>r\<in>set ys. user_id r \<noteq> i)
         \<and> Database_get xs i = Inr u)"
proof (cases "find (\<lambda>item. user_id item = i) xs")
  case None
  then have "\<forall>r\<in>set xs. user_id r \<noteq> i"
    by (simp add: find_None_set)
  with None show ?thesis
    by (simp add: Database_get_def)
next
  case (Some u)
  then obtain k where k: "k < length xs" "user_id (xs ! k) = i" "u = xs ! k"
      "\<forall>j<k. user_id (xs ! j) \<noteq> i"
    by (auto simp: find_Some_iff)
  then have "xs = take k xs @ u # drop (Suc k) xs \<and> user_id u = i
      \<and> (\<forall>r\<in>set (take k xs). user_id r \<noteq> i)"
    by (auto simp: id_take_nth_drop in_set_conv_nth)
  with Some show ?thesis
    by (auto simp: Database_get_def)
qed

subsection \<open>The interactor, path by path\<close>

lemma executeGetUser_invalid:
  "falsy (in_id d) \<Longrightarrow> executeGetUser d s = (Some (Error ''id is required''), s)"
  by (simp add: executeGetUser_def)

lemma executeGetUser_throws:
  "\<not> falsy (in_id d) \<Longrightarrow> Database_get (items s) (the (in_id d)) = Inl e \<Longrightarrow>
   executeGetUser d s = (Some e, s\<lparr>calls := calls s @ [GetUser (the (in_id d))]\<rparr>)"
  by (simp add: executeGetUser_def Repository_getUser_def)

lemma executeGetUser_returns:
  "\<not> falsy (in_id d) \<Longrightarrow> Database_get (items s) (the (in_id d)) = Inr r \<Longrightarrow>
   executeGetUser d s =
     (None, s\<lparr>viewModel := present \<lparr>out_id = user_id r, out_username = user_username r\<rparr> (viewModel s),
              calls := calls s @ [GetUser (the (in_id d)),
                                  Present \<lparr>out_id = user_id r, out_username = user_username r\<rparr>]\<rparr>)"
  by (simp add: executeGetUser_def Repository_getUser_def Presenter_present_def)

lemma executeCreateUser_returns:
  "i \<noteq> [] \<Longrightarrow> u \<noteq> [] \<Longrightarrow> p \<noteq> [] \<Longrightarrow>
   executeCreateUser \<lparr>in_id = Some i, in_username = Some u, in_password = Some p\<rparr> s =
     (None, s\<lparr>items := items s @ [\<lparr>user_id = i, user_username = u, user_password = p\<rparr>],
              viewModel := present \<lparr>out_id = i, out_username = u\<rparr> (viewModel s),
              calls := calls s @ [CreateUser \<lparr>user_id = i, user_username = u, user_password = p\<rparr>,
                                  Present \<lparr>out_id = i, out_username = u\<rparr>]\<rparr>)"
  by (simp add: executeCreateUser_def Repository_createUser_def Presenter_present_def
      Database_create_def Let_def)

lemma executeCreateUser_throws:
  "falsy (in_id d) \<or> falsy (in_password d) \<or> falsy (in_username d) \<Longrightarrow>
   snd (executeCreateUser d s) = s \<and> fst (executeCreateUser d s) \<noteq> None"
  by (auto simp add: executeCreateUser_def)

text \<open>
  \<^verbatim>\<open>main.ts\<close> ends with \<^verbatim>\<open>controller.getUser("1")\<close> on the freshly wired objects and
  remarks that this call throws: nothing is stored yet.
\<close>

lemma main_getUser_throws:
  "Controller_getUser ''1'' initial
     = (Some (Error ''Item not found''), initial\<lparr>calls := [GetUser ''1'']\<rparr>)"
  by (simp add: program_defs)

section \<open>Reading leaves the stored items alone\<close>

text \<open>
  Claim C9. \<^verbatim>\<open>executeGetUser\<close> never modifies storage: for every read request and every
  state of the system, whether the call returns or throws, the database's sequence of
  items after the call is the sequence before it.
\<close>

theorem executeGetUser_items_unchanged:
  "items (snd (executeGetUser inputData s)) = items s"
  by (simp add: executeGetUser_def Repository_getUser_def Presenter_present_def split: sum.splits)

section \<open>Facts about single operations and sequences\<close>

lemma exec_calls_grow: "calls (snd (exec op s)) = calls s @ issued op s"
  by (cases op)
    (auto simp: issued_def executeGetUser_def executeCreateUser_def Repository_getUser_def
      Repository_createUser_def Presenter_present_def Let_def split: sum.splits)

lemma exec_items_prefix: "\<exists>zs. items (snd (exec op s)) = items s @ zs"
  by (cases op)
    (auto simp: executeGetUser_def executeCreateUser_def Repository_getUser_def
      Repository_createUser_def Presenter_present_def Database_create_def Let_def
      split: sum.splits)

lemma steps_items_prefix: "\<exists>zs. items (steps ops s) = items s @ zs"
proof (induction ops arbitrary: s)
  case Nil
  show ?case by simp
next
  case (Cons op ops)
  obtain zs where a: "items (snd (exec op s)) = items s @ zs"
    using exec_items_prefix by blast
  obtain zs' where "items (steps ops (snd (exec op s))) = items (snd (exec op s)) @ zs'"
    using Cons.IH by blast
  with a show ?case by simp
qed

lemma steps_append: "steps (xs @ ys) s = steps ys (steps xs s)"
  by (induction xs arbitrary: s) auto

lemma exec_presented:
  "fst (exec op s) = None \<Longrightarrow>
   \<exists>out. presented (issued op s) = [out] \<and> viewModel (snd (exec op s)) = present out (viewModel s)"
  by (cases op)
    (auto simp: issued_def executeGetUser_def executeCreateUser_def Repository_getUser_def
      Repository_createUser_def Presenter_present_def Let_def split: sum.splits if_splits)

lemma exec_failed:
  "fst (exec op s) \<noteq> None \<Longrightarrow>
   viewModel (snd (exec op s)) = viewModel s \<and> presented (issued op s) = []"
  by (cases op)
    (auto simp: issued_def executeGetUser_def executeCreateUser_def Repository_getUser_def
      Repository_createUser_def Presenter_present_def Let_def split: sum.splits if_splits)

section \<open>Validation of a write request\<close>

text \<open>
  Claim C2. For every write request, \<^verbatim>\<open>executeCreateUser\<close> checks the id first, then the
  password, then the username, the first failing check ending the call: a missing or
  empty id throws the error that names the id whatever the other two fields are; with an
  id, a missing or empty password throws the error that names the password whatever the
  username is; with both, a missing or empty username throws the error that names the
  username. On each of these paths the state is the one before the call, and no call on
  the repository (or the presenter) was made.
\<close>

theorem executeCreateUser_validation_order:
  "(falsy (in_id d) \<longrightarrow>
      executeCreateUser d s = (Some (Error ''id is required''), s))
   \<and> (\<not> falsy (in_id d) \<and> falsy (in_password d) \<longrightarrow>
      executeCreateUser d s = (Some (Error ''password is required''), s))
   \<and> (\<not> falsy (in_id d) \<and> \<not> falsy (in_password d) \<and> falsy (in_username d) \<longrightarrow>
      executeCreateUser d s = (Some (Error ''username is required''), s))
   \<and> (falsy (in_id d) \<or> falsy (in_password d) \<or> falsy (in_username d) \<longrightarrow>
      issued (CreateOp d) s = [])"
  by (simp add: executeCreateUser_def issued_def)

theorem executeCreateUser_validation_order_witness:
  "executeCreateUser \<lparr>in_id = None, in_username = None, in_password = None\<rparr> initial
     = (Some (Error ''id is required''), initial)
   \<and> executeCreateUser \<lparr>in_id = Some ''1'', in_username = None, in_password = Some []\<rparr> initial
     = (Some (Error ''password is required''), initial)
   \<and> executeCreateUser
        \<lparr>in_id = Some ''1'', in_username = Some [], in_password = Some ''s3cr3t''\<rparr> initial
     = (Some (Error ''username is required''), initial)
   \<and> issued (CreateOp \<lparr>in_id = Some ''1'', in_username = Some [], in_password = Some ''s3cr3t''\<rparr>)
        initial = []"
  using
    executeCreateUser_validation_order
      [of "\<lparr>in_id = None, in_username = None, in_password = None\<rparr>" initial]
    executeCreateUser_validation_order
      [of "\<lparr>in_id = Some ''1'', in_username = None, in_password = Some []\<rparr>" initial]
    executeCreateUser_validation_order
      [of "\<lparr>in_id = Some ''1'', in_username = Some [], in_password = Some ''s3cr3t''\<rparr>" initial]
  by simp

section \<open>Validation of a read request\<close>

text \<open>
  Claim C6, as the spec states it: a read request whose identifier is empty or missing
  fails with the message "identifier is required". The program's message is
  "id is required": at the empty identifier on the initial system the error thrown is
  \<open>Error ''id is required''\<close>, which is not \<open>Error ''identifier is required''\<close>.
\<close>

theorem executeGetUser_message_is_not_identifier_is_required:
  "fst (executeGetUser \<lparr>in_id = Some [], in_username = None, in_password = None\<rparr> initial)
     = Some (Error ''id is required'')
   \<and> fst (executeGetUser \<lparr>in_id = Some [], in_username = None, in_password = None\<rparr> initial)
     \<noteq> Some (Error ''identifier is required'')"
  by (simp add: executeGetUser_def)

text \<open>
  Claim C6, amended. For every read request whose id is empty or missing,
  \<^verbatim>\<open>executeGetUser\<close> throws an error with the message "id is required", leaves the state
  as it was and makes no call on the repository (nor on the presenter).
\<close>

theorem executeGetUser_id_required:
  "falsy (in_id d) \<Longrightarrow>
     executeGetUser d s = (Some (Error ''id is required''), s) \<and> issued (GetOp d) s = []"
  by (simp add: executeGetUser_def issued_def)

theorem executeGetUser_id_required_witness:
  "executeGetUser \<lparr>in_id = None, in_username = None, in_password = None\<rparr> initial
      = (Some (Error ''id is required''), initial)
   \<and> issued (GetOp \<lparr>in_id = None, in_username = None, in_password = None\<rparr>) initial = []
   \<and> executeGetUser \<lparr>in_id = Some [], in_username = None, in_password = None\<rparr> initial
      = (Some (Error ''id is required''), initial)
   \<and> issued (GetOp \<lparr>in_id = Some [], in_username = None, in_password = None\<rparr>) initial = []"
  using
    executeGetUser_id_required
      [of "\<lparr>in_id = None, in_username = None, in_password = None\<rparr>" initial]
    executeGetUser_id_required
      [of "\<lparr>in_id = Some [], in_username = None, in_password = None\<rparr>" initial]
  by simp

section \<open>Reading an identifier that is not stored\<close>

text \<open>
  Claim C5, as the spec states it: reading a non-empty identifier that matches no stored
  record fails with the message "item not found". The program's message is
  "Item not found", with a capital I: reading \<open>''1''\<close> on the initial (empty) system
  throws \<open>Error ''Item not found''\<close>, which is not \<open>Error ''item not found''\<close>.
\<close>

theorem executeGetUser_message_is_not_item_not_found:
  "fst (executeGetUser \<lparr>in_id = Some ''1'', in_username = None, in_password = None\<rparr> initial)
     = Some (Error ''Item not found'')
   \<and> fst (executeGetUser \<lparr>in_id = Some ''1'', in_username = None, in_password = None\<rparr> initial)
     \<noteq> Some (Error ''item not found'')"
  by (simp add: executeGetUser_def Repository_getUser_def Database_get_def initial_def)

text \<open>
  Claim C5, amended. For every non-empty id that no stored record has, \<^verbatim>\<open>Database.get\<close>
  throws an error with the message "Item not found"; \<^verbatim>\<open>executeGetUser\<close> throws that same
  error, and so does \<^verbatim>\<open>Controller.getUser\<close>; the only call made is the one on the
  repository, so the presenter's \<^verbatim>\<open>present\<close> is not invoked.
\<close>

theorem executeGetUser_not_found:
  assumes "i \<noteq> []" and "\<forall>r\<in>set (items s). user_id r \<noteq> i"
  shows "Database_get (items s) i = Inl (Error ''Item not found'')
     \<and> executeGetUser \<lparr>in_id = Some i, in_username = u, in_password = p\<rparr> s
         = (Some (Error ''Item not found''), s\<lparr>calls := calls s @ [GetUser i]\<rparr>)
     \<and> Controller_getUser i s
         = (Some (Error ''Item not found''), s\<lparr>calls := calls s @ [GetUser i]\<rparr>)
     \<and> filter is_Present (issued (GetOp \<lparr>in_id = Some i, in_username = u, in_password = p\<rparr>) s) = []"
proof -
  have g: "Database_get (items s) i = Inl (Error ''Item not found'')"
    using assms(2) by (rule Database_get_missing)
  have e: "executeGetUser \<lparr>in_id = Some i, in_username = u, in_password = p\<rparr> s
         = (Some (Error ''Item not found''), s\<lparr>calls := calls s @ [GetUser i]\<rparr>)" for u p
    using assms(1) g by (simp add: executeGetUser_throws)
  show ?thesis
    using g e by (simp add: Controller_getUser_def issued_def)
qed

theorem executeGetUser_not_found_witness:
  "Controller_getUser ''2''
      \<lparr>items = [\<lparr>user_id = ''1'', user_username = ''alice'', user_password = ''s3cr3t''\<rparr>],
       viewModel = \<lparr>vm_id = Some ''1'', vm_username = Some ''alice''\<rparr>, calls = []\<rparr>
    = (Some (Error ''Item not found''),
       \<lparr>items = [\<lparr>user_id = ''1'', user_username = ''alice'', user_password = ''s3cr3t''\<rparr>],
       viewModel = \<lparr>vm_id = Some ''1'', vm_username = Some ''alice''\<rparr>, calls = [GetUser ''2'']\<rparr>)
   \<and> filter is_Present (issued (GetOp \<lparr>in_id = Some ''2'', in_username = None, in_password = None\<rparr>)
      \<lparr>items = [\<lparr>user_id = ''1'', user_username = ''alice'', user_password = ''s3cr3t''\<rparr>],
       viewModel = \<lparr>vm_id = Some ''1'', vm_username = Some ''alice''\<rparr>, calls = []\<rparr>) = []"
  using executeGetUser_not_found
    [of "''2''"
        "\<lparr>items = [\<lparr>user_id = ''1'', user_username = ''alice'', user_password = ''s3cr3t''\<rparr>],
          viewModel = \<lparr>vm_id = Some ''1'', vm_username = Some ''alice''\<rparr>, calls = []\<rparr>"
        None None]
  by simp

section \<open>How often the collaborators are called\<close>

text \<open>
  Claim C8. For every call of \<^verbatim>\<open>executeGetUser\<close> or \<^verbatim>\<open>executeCreateUser\<close>, in every
  state, the call only adds to the log of collaborator calls, and among the calls it adds
  \<^verbatim>\<open>present\<close> occurs exactly once if the call returns and not at all if it throws. A
  call of \<^verbatim>\<open>executeCreateUser\<close> that returns makes exactly one \<^verbatim>\<open>createUser\<close> call on
  the repository (and one that throws makes none).
\<close>

theorem present_once_on_success:
  "calls (snd (exec op s)) = calls s @ issued op s
   \<and> length (filter is_Present (issued op s)) = (if fst (exec op s) = None then 1 else 0)
   \<and> length (filter is_CreateUser (issued (CreateOp d) s))
       = (if fst (executeCreateUser d s) = None then 1 else 0)"
  by (cases op)
    (auto simp: issued_def executeGetUser_def executeCreateUser_def Repository_getUser_def
      Repository_createUser_def Presenter_present_def Let_def split: sum.splits)

theorem present_once_on_success_witness:
  "length (filter is_Present (issued
       (CreateOp \<lparr>in_id = Some ''1'', in_username = Some ''alice'', in_password = Some ''s3cr3t''\<rparr>)
       initial)) = 1
   \<and> length (filter is_CreateUser (issued
       (CreateOp \<lparr>in_id = Some ''1'', in_username = Some ''alice'', in_password = Some ''s3cr3t''\<rparr>)
       initial)) = 1
   \<and> length (filter is_Present (issued
       (GetOp \<lparr>in_id = Some ''1'', in_username = None, in_password = None\<rparr>) initial)) = 0
   \<and> length (filter is_Present (issued
       (CreateOp \<lparr>in_id = Some ''1'', in_username = Some ''alice'', in_password = None\<rparr>)
       initial)) = 0"
  using
    present_once_on_success
      [of "CreateOp \<lparr>in_id = Some ''1'', in_username = Some ''alice'', in_password = Some ''s3cr3t''\<rparr>"
        initial "\<lparr>in_id = Some ''1'', in_username = Some ''alice'', in_password = Some ''s3cr3t''\<rparr>"]
    present_once_on_success
      [of "GetOp \<lparr>in_id = Some ''1'', in_username = None, in_password = None\<rparr>"
        initial "\<lparr>in_id = Some ''1'', in_username = None, in_password = None\<rparr>"]
    present_once_on_success
      [of "CreateOp \<lparr>in_id = Some ''1'', in_username = Some ''alice'', in_password = None\<rparr>"
        initial "\<lparr>in_id = Some ''1'', in_username = None, in_password = None\<rparr>"]
  by (simp add: program_defs)

section \<open>Duplicate identifiers\<close>

text \<open>
  Claim C7. \<^verbatim>\<open>Database.create\<close> appends its argument to the items whatever they are and
  has no failing path, so two valid write requests with the same id both return and leave
  both records stored, in the order written. \<^verbatim>\<open>Database.get\<close> returns the first record
  in that order whose id matches: a record preceded only by records of other ids is the
  one returned, whatever follows it. When the id was not stored before the two writes,
  fetching it afterwards gives the record of the first write.
\<close>

theorem create_appends_get_first_match:
  assumes "i \<noteq> []" "u1 \<noteq> []" "p1 \<noteq> []" "u2 \<noteq> []" "p2 \<noteq> []"
  shows "Database_create xs r = xs @ [r]
    \<and> fst (executeCreateUser \<lparr>in_id = Some i, in_username = Some u1, in_password = Some p1\<rparr> s) = None
    \<and> fst (executeCreateUser \<lparr>in_id = Some i, in_username = Some u2, in_password = Some p2\<rparr>
          (snd (executeCreateUser \<lparr>in_id = Some i, in_username = Some u1, in_password = Some p1\<rparr> s))) = None
    \<and> items (steps [CreateOp \<lparr>in_id = Some i, in_username = Some u1, in_password = Some p1\<rparr>,
                     CreateOp \<lparr>in_id = Some i, in_username = Some u2, in_password = Some p2\<rparr>] s)
        = items s @ [\<lparr>user_id = i, user_username = u1, user_password = p1\<rparr>,
                     \<lparr>user_id = i, user_username = u2, user_password = p2\<rparr>]
    \<and> ((\<forall>r\<in>set (items s). user_id r \<noteq> i) \<longrightarrow>
         Database_get
           (items (steps [CreateOp \<lparr>in_id = Some i, in_username = Some u1, in_password = Some p1\<rparr>,
                          CreateOp \<lparr>in_id = Some i, in_username = Some u2, in_password = Some p2\<rparr>] s)) i
         = Inr \<lparr>user_id = i, user_username = u1, user_password = p1\<rparr>)
    \<and> ((\<forall>r\<in>set ys. user_id r \<noteq> j) \<and> user_id v = j \<longrightarrow> Database_get (ys @ v # zs) j = Inr v)"
proof -
  let ?a = "\<lparr>in_id = Some i, in_username = Some u1, in_password = Some p1\<rparr>"
  let ?b = "\<lparr>in_id = Some i, in_username = Some u2, in_password = Some p2\<rparr>"
  let ?ra = "\<lparr>user_id = i, user_username = u1, user_password = p1\<rparr>"
  let ?rb = "\<lparr>user_id = i, user_username = u2, user_password = p2\<rparr>"
  have a: "fst (executeCreateUser ?a s) = None"
    and ia: "items (snd (executeCreateUser ?a s)) = items s @ [?ra]"
    using assms by (simp_all add: executeCreateUser_returns)
  have b: "fst (executeCreateUser ?b t) = None"
    and ib: "items (snd (executeCreateUser ?b t)) = items t @ [?rb]" for t
    using assms by (simp_all add: executeCreateUser_returns)
  have st: "items (steps [CreateOp ?a, CreateOp ?b] s) = items s @ [?ra, ?rb]"
    by (simp add: ia ib)
  have first: "Database_get (items s @ ?ra # [?rb]) i = Inr ?ra"
    if "\<forall>r\<in>set (items s). user_id r \<noteq> i"
    using that by (intro Database_get_first) simp_all
  show ?thesis
    using a b st first by (simp add: Database_create_def Database_get_first)
qed

theorem create_appends_get_first_match_witness:
  "fst (executeCreateUser \<lparr>in_id = Some ''1'', in_username = Some ''alice'', in_password = Some ''s3cr3t''\<rparr>
          initial) = None
   \<and> fst (executeCreateUser \<lparr>in_id = Some ''1'', in_username = Some ''bob'', in_password = Some ''pw''\<rparr>
          (snd (executeCreateUser
             \<lparr>in_id = Some ''1'', in_username = Some ''alice'', in_password = Some ''s3cr3t''\<rparr> initial)))
       = None
   \<and> items (steps [CreateOp \<lparr>in_id = Some ''1'', in_username = Some ''alice'', in_password = Some ''s3cr3t''\<rparr>,
                    CreateOp \<lparr>in_id = Some ''1'', in_username = Some ''bob'', in_password = Some ''pw''\<rparr>]
               initial)
       = [\<lparr>user_id = ''1'', user_username = ''alice'', user_password = ''s3cr3t''\<rparr>,
          \<lparr>user_id = ''1'', user_username = ''bob'', user_password = ''pw''\<rparr>]
   \<and> Database_get
        (items (steps [CreateOp \<lparr>in_id = Some ''1'', in_username = Some ''alice'', in_password = Some ''s3cr3t''\<rparr>,
                       CreateOp \<lparr>in_id = Some ''1'', in_username = Some ''bob'', in_password = Some ''pw''\<rparr>]
                  initial)) ''1''
       = Inr \<lparr>user_id = ''1'', user_username = ''alice'', user_password = ''s3cr3t''\<rparr>
   \<and> Database_get
        [\<lparr>user_id = ''2'', user_username = ''carol'', user_password = ''x''\<rparr>,
         \<lparr>user_id = ''1'', user_username = ''alice'', user_password = ''s3cr3t''\<rparr>,
         \<lparr>user_id = ''1'', user_username = ''bob'', user_password = ''pw''\<rparr>] ''1''
       = Inr \<lparr>user_id = ''1'', user_username = ''alice'', user_password = ''s3cr3t''\<rparr>"
  using create_appends_get_first_match [where i = "''1''" and ?u1.0 = "''alice''" and ?p1.0 = "''s3cr3t''" and ?u2.0 = "''bob''"
      and ?p2.0 = "''pw''" and s = initial and xs = "[]"
      and r = "\<lparr>user_id = ''1'', user_username = ''alice'', user_password = ''s3cr3t''\<rparr>"
      and ys = "[\<lparr>user_id = ''2'', user_username = ''carol'', user_password = ''x''\<rparr>]"
      and j = "''1''"
      and v = "\<lparr>user_id = ''1'', user_username = ''alice'', user_password = ''s3cr3t''\<rparr>"
      and zs = "[\<lparr>user_id = ''1'', user_username = ''bob'', user_password = ''pw''\<rparr>]"]
  by (simp add: program_defs)

section \<open>Writing, then reading\<close>

text \<open>
  Claim C1, as the spec states it: after an accepted write with non-empty id, username
  and password, a read of the same id (no insert of that id in between) hands the
  presenter the id and username of that write. This fails when a record with the same
  id was stored before the write. From the initial system, write (1, bob, pw), then
  write (1, alice, s3cr3t), which is accepted, then read 1: the presenter receives
  (1, bob), not (1, alice).
\<close>

theorem write_then_read_presents_older_record:
  "fst (exec (CreateOp \<lparr>in_id = Some ''1'', in_username = Some ''alice'', in_password = Some ''s3cr3t''\<rparr>)
          (steps [CreateOp \<lparr>in_id = Some ''1'', in_username = Some ''bob'', in_password = Some ''pw''\<rparr>] initial))
     = None
   \<and> fst (exec (GetOp \<lparr>in_id = Some ''1'', in_username = None, in_password = None\<rparr>)
          (steps [CreateOp \<lparr>in_id = Some ''1'', in_username = Some ''bob'', in_password = Some ''pw''\<rparr>,
                  CreateOp \<lparr>in_id = Some ''1'', in_username = Some ''alice'', in_password = Some ''s3cr3t''\<rparr>]
             initial))
     = None
   \<and> presented (issued (GetOp \<lparr>in_id = Some ''1'', in_username = None, in_password = None\<rparr>)
          (steps [CreateOp \<lparr>in_id = Some ''1'', in_username = Some ''bob'', in_password = Some ''pw''\<rparr>,
                  CreateOp \<lparr>in_id = Some ''1'', in_username = Some ''alice'', in_password = Some ''s3cr3t''\<rparr>]
             initial))
     = [\<lparr>out_id = ''1'', out_username = ''bob''\<rparr>]
   \<and> presented (issued (GetOp \<lparr>in_id = Some ''1'', in_username = None, in_password = None\<rparr>)
          (steps [CreateOp \<lparr>in_id = Some ''1'', in_username = Some ''bob'', in_password = Some ''pw''\<rparr>,
                  CreateOp \<lparr>in_id = Some ''1'', in_username = Some ''alice'', in_password = Some ''s3cr3t''\<rparr>]
             initial))
     \<noteq> [\<lparr>out_id = ''1'', out_username = ''alice''\<rparr>]"
  by (simp add: issued_def executeGetUser_def executeCreateUser_def Repository_getUser_def
      Repository_createUser_def Presenter_present_def Database_create_def Database_get_def
      present_def initial_def Let_def)

text \<open>
  Claim C1, amended. For every write request with non-empty id, username and password,
  made in a state where no stored record has that id, the write is accepted, and after
  any sequence of further operations none of which is a write request for that id, a read
  of the id returns and hands the presenter exactly one result, with the id and the
  username of the write. (The proof does not use the condition on the operations in
  between: the record written first stays the first match.)
\<close>

theorem write_then_read_fresh_identifier:
  assumes "i \<noteq> []" "u \<noteq> []" "p \<noteq> []"
    and fresh: "\<forall>r\<in>set (items s). user_id r \<noteq> i"
    and "\<forall>op\<in>set ops. \<not> inserts i op"
  shows "fst (executeCreateUser \<lparr>in_id = Some i, in_username = Some u, in_password = Some p\<rparr> s) = None
    \<and> fst (executeGetUser \<lparr>in_id = Some i, in_username = ru, in_password = rp\<rparr>
          (steps ops (snd (executeCreateUser
              \<lparr>in_id = Some i, in_username = Some u, in_password = Some p\<rparr> s)))) = None
    \<and> presented (issued (GetOp \<lparr>in_id = Some i, in_username = ru, in_password = rp\<rparr>)
          (steps ops (snd (executeCreateUser
              \<lparr>in_id = Some i, in_username = Some u, in_password = Some p\<rparr> s))))
        = [\<lparr>out_id = i, out_username = u\<rparr>]"
proof -
  let ?w = "\<lparr>in_id = Some i, in_username = Some u, in_password = Some p\<rparr>"
  let ?r = "\<lparr>user_id = i, user_username = u, user_password = p\<rparr>"
  let ?d = "\<lparr>in_id = Some i, in_username = ru, in_password = rp\<rparr>"
  define t where "t = steps ops (snd (executeCreateUser ?w s))"
  have w: "fst (executeCreateUser ?w s) = None"
    and iw: "items (snd (executeCreateUser ?w s)) = items s @ [?r]"
    using assms(1-3) by (simp_all add: executeCreateUser_returns)
  obtain zs where "items t = items (snd (executeCreateUser ?w s)) @ zs"
    unfolding t_def using steps_items_prefix by blast
  with iw have "items t = items s @ ?r # zs"
    by simp
  with fresh have "Database_get (items t) i = Inr ?r"
    by (simp add: Database_get_first)
  with assms(1) have "executeGetUser ?d t =
     (None, t\<lparr>viewModel := present \<lparr>out_id = i, out_username = u\<rparr> (viewModel t),
              calls := calls t @ [GetUser i, Present \<lparr>out_id = i, out_username = u\<rparr>]\<rparr>)"
    using executeGetUser_returns [of ?d t ?r] by simp
  then have "fst (executeGetUser ?d t) = None
      \<and> presented (issued (GetOp ?d) t) = [\<lparr>out_id = i, out_username = u\<rparr>]"
    by (simp add: issued_def)
  with w show ?thesis
    unfolding t_def by simp
qed

theorem write_then_read_fresh_identifier_witness:
  "fst (executeCreateUser \<lparr>in_id = Some ''1'', in_username = Some ''alice'', in_password = Some ''s3cr3t''\<rparr>
          initial) = None
   \<and> fst (executeGetUser \<lparr>in_id = Some ''1'', in_username = None, in_password = None\<rparr>
          (steps [GetOp \<lparr>in_id = Some ''2'', in_username = None, in_password = None\<rparr>,
                  CreateOp \<lparr>in_id = Some ''2'', in_username = Some ''bob'', in_password = Some ''pw''\<rparr>]
             (snd (executeCreateUser
                \<lparr>in_id = Some ''1'', in_username = Some ''alice'', in_password = Some ''s3cr3t''\<rparr>
                initial)))) = None
   \<and> presented (issued (GetOp \<lparr>in_id = Some ''1'', in_username = None, in_password = None\<rparr>)
          (steps [GetOp \<lparr>in_id = Some ''2'', in_username = None, in_password = None\<rparr>,
                  CreateOp \<lparr>in_id = Some ''2'', in_username = Some ''bob'', in_password = Some ''pw''\<rparr>]
             (snd (executeCreateUser
                \<lparr>in_id = Some ''1'', in_username = Some ''alice'', in_password = Some ''s3cr3t''\<rparr>
                initial))))
       = [\<lparr>out_id = ''1'', out_username = ''alice''\<rparr>]"
  using write_then_read_fresh_identifier [where i = "''1''" and u = "''alice''" and p = "''s3cr3t''" and s = initial
      and ops = "[GetOp \<lparr>in_id = Some ''2'', in_username = None, in_password = None\<rparr>,
                  CreateOp \<lparr>in_id = Some ''2'', in_username = Some ''bob'', in_password = Some ''pw''\<rparr>]"
      and ru = None and rp = None]
  by (simp add: program_defs)

section \<open>The password stays behind the interactor\<close>

lemma find_public:
  "map public xs = map public ys \<Longrightarrow>
   map_option public (find (\<lambda>item. user_id item = i) xs)
     = map_option public (find (\<lambda>item. user_id item = i) ys)"
proof (induction xs arbitrary: ys)
  case Nil
  then show ?case by simp
next
  case (Cons x xs)
  then obtain y ys' where ys: "ys = y # ys'" "public x = public y" "map public xs = map public ys'"
    by (cases ys) auto
  have ih: "map_option public (find (\<lambda>item. user_id item = i) xs)
      = map_option public (find (\<lambda>item. user_id item = i) ys')"
    using Cons.IH ys(3) by blast
  have "user_id x = user_id y"
    using ys(2) by (simp add: public_def)
  with ih ys(1,2) show ?case
    by simp
qed

lemma Database_get_public:
  assumes "map public xs = map public ys"
  shows "(\<exists>e. Database_get xs i = Inl e \<and> Database_get ys i = Inl e)
     \<or> (\<exists>a b. Database_get xs i = Inr a \<and> Database_get ys i = Inr b
            \<and> user_id a = user_id b \<and> user_username a = user_username b)"
  using find_public [OF assms, of i]
  by (auto simp: Database_get_def public_def split: option.splits)

lemma executeGetUser_public:
  assumes "map public (items s) = map public (items t)" and "viewModel s = viewModel t"
    and "in_id d = in_id d'"
  shows "fst (executeGetUser d s) = fst (executeGetUser d' t)
    \<and> presented (issued (GetOp d) s) = presented (issued (GetOp d') t)
    \<and> viewModel (snd (executeGetUser d s)) = viewModel (snd (executeGetUser d' t))"
proof (cases "falsy (in_id d)")
  case True
  with assms show ?thesis
    by (simp add: executeGetUser_invalid issued_def)
next
  case False
  then have f: "\<not> falsy (in_id d')"
    using assms(3) by simp
  let ?i = "the (in_id d)"
  have i: "the (in_id d') = ?i"
    using assms(3) by simp
  from Database_get_public [OF assms(1), of ?i] show ?thesis
  proof (elim disjE exE conjE)
    fix e
    assume "Database_get (items s) ?i = Inl e" "Database_get (items t) ?i = Inl e"
    then show ?thesis
      using False f i assms(2) by (simp add: executeGetUser_throws issued_def)
  next
    fix a b
    assume "Database_get (items s) ?i = Inr a" "Database_get (items t) ?i = Inr b"
      "user_id a = user_id b" "user_username a = user_username b"
    then show ?thesis
      using False f i assms(2) by (simp add: executeGetUser_returns issued_def)
  qed
qed

lemma executeCreateUser_secret:
  assumes "\<not> falsy p" "\<not> falsy q" "viewModel s = viewModel t"
  shows "fst (executeCreateUser (d\<lparr>in_password := p\<rparr>) s) = fst (executeCreateUser (d\<lparr>in_password := q\<rparr>) t)
    \<and> presented (issued (CreateOp (d\<lparr>in_password := p\<rparr>)) s)
        = presented (issued (CreateOp (d\<lparr>in_password := q\<rparr>)) t)
    \<and> viewModel (snd (executeCreateUser (d\<lparr>in_password := p\<rparr>) s))
        = viewModel (snd (executeCreateUser (d\<lparr>in_password := q\<rparr>) t))"
  using assms
  by (simp add: executeCreateUser_def issued_def Repository_createUser_def Presenter_present_def Let_def)

text \<open>
  Claim C4. What \<^verbatim>\<open>present\<close> is given never depends on a password. Two reads of the
  same id on stores that agree in the ids and usernames of their records, position by
  position, and differ at most in the passwords, end the same way and hand the
  presenter the same data; two writes that differ only in the (non-empty) password
  supplied end the same way and hand the presenter the same data; in both cases the
  view model ends up the same. A read that returns hands over exactly the id and the
  username of the record fetched, a write that returns exactly the id and the username
  of the request: \<open>OutputData\<close> has no other field.
\<close>

theorem secret_never_presented:
  "(map public (items s) = map public (items t) \<and> viewModel s = viewModel t \<and> in_id d = in_id d' \<longrightarrow>
      fst (executeGetUser d s) = fst (executeGetUser d' t)
      \<and> presented (issued (GetOp d) s) = presented (issued (GetOp d') t)
      \<and> viewModel (snd (executeGetUser d s)) = viewModel (snd (executeGetUser d' t)))
   \<and> (\<not> falsy p \<and> \<not> falsy q \<and> viewModel s = viewModel t \<longrightarrow>
      fst (executeCreateUser (w\<lparr>in_password := p\<rparr>) s) = fst (executeCreateUser (w\<lparr>in_password := q\<rparr>) t)
      \<and> presented (issued (CreateOp (w\<lparr>in_password := p\<rparr>)) s)
          = presented (issued (CreateOp (w\<lparr>in_password := q\<rparr>)) t)
      \<and> viewModel (snd (executeCreateUser (w\<lparr>in_password := p\<rparr>) s))
          = viewModel (snd (executeCreateUser (w\<lparr>in_password := q\<rparr>) t)))
   \<and> (fst (executeGetUser d s) = None \<longrightarrow>
        (\<exists>r. Database_get (items s) (the (in_id d)) = Inr r
           \<and> presented (issued (GetOp d) s) = [\<lparr>out_id = user_id r, out_username = user_username r\<rparr>]))
   \<and> (fst (executeCreateUser w s) = None \<longrightarrow>
        presented (issued (CreateOp w) s)
          = [\<lparr>out_id = the (in_id w), out_username = the (in_username w)\<rparr>])"
proof (intro conjI impI)
  assume "fst (executeGetUser d s) = None"
  then show "\<exists>r. Database_get (items s) (the (in_id d)) = Inr r
           \<and> presented (issued (GetOp d) s) = [\<lparr>out_id = user_id r, out_username = user_username r\<rparr>]"
    by (auto simp: issued_def executeGetUser_def Repository_getUser_def Presenter_present_def
        split: sum.splits if_splits)
next
  assume "fst (executeCreateUser w s) = None"
  then show "presented (issued (CreateOp w) s)
          = [\<lparr>out_id = the (in_id w), out_username = the (in_username w)\<rparr>]"
    by (auto simp: issued_def executeCreateUser_def Repository_createUser_def Presenter_present_def
        Let_def split: if_splits)
qed (use executeGetUser_public [of s t d d'] executeCreateUser_secret [of p q s t w] in simp_all)

theorem secret_never_presented_witness:
  "presented (issued (GetOp \<lparr>in_id = Some ''1'', in_username = None, in_password = None\<rparr>)
       \<lparr>items = [\<lparr>user_id = ''1'', user_username = ''alice'', user_password = ''s3cr3t''\<rparr>],
        viewModel = \<lparr>vm_id = None, vm_username = None\<rparr>, calls = []\<rparr>)
     = presented (issued (GetOp \<lparr>in_id = Some ''1'', in_username = None, in_password = None\<rparr>)
       \<lparr>items = [\<lparr>user_id = ''1'', user_username = ''alice'', user_password = ''hunter2''\<rparr>],
        viewModel = \<lparr>vm_id = None, vm_username = None\<rparr>, calls = []\<rparr>)
   \<and> presented (issued (GetOp \<lparr>in_id = Some ''1'', in_username = None, in_password = None\<rparr>)
       \<lparr>items = [\<lparr>user_id = ''1'', user_username = ''alice'', user_password = ''s3cr3t''\<rparr>],
        viewModel = \<lparr>vm_id = None, vm_username = None\<rparr>, calls = []\<rparr>)
     = [\<lparr>out_id = ''1'', out_username = ''alice''\<rparr>]
   \<and> presented (issued
         (CreateOp \<lparr>in_id = Some ''1'', in_username = Some ''alice'', in_password = Some ''s3cr3t''\<rparr>) initial)
     = presented (issued
         (CreateOp \<lparr>in_id = Some ''1'', in_username = Some ''alice'', in_password = Some ''hunter2''\<rparr>) initial)
   \<and> presented (issued
         (CreateOp \<lparr>in_id = Some ''1'', in_username = Some ''alice'', in_password = Some ''s3cr3t''\<rparr>) initial)
     = [\<lparr>out_id = ''1'', out_username = ''alice''\<rparr>]"
  using secret_never_presented [where s = "\<lparr>items = [\<lparr>user_id = ''1'', user_username = ''alice'', user_password = ''s3cr3t''\<rparr>],
        viewModel = \<lparr>vm_id = None, vm_username = None\<rparr>, calls = []\<rparr>"
      and t = "\<lparr>items = [\<lparr>user_id = ''1'', user_username = ''alice'', user_password = ''hunter2''\<rparr>],
        viewModel = \<lparr>vm_id = None, vm_username = None\<rparr>, calls = []\<rparr>"
      and d = "\<lparr>in_id = Some ''1'', in_username = None, in_password = None\<rparr>"
      and d' = "\<lparr>in_id = Some ''1'', in_username = None, in_password = None\<rparr>"
      and p = "Some ''s3cr3t''" and q = "Some ''hunter2''"
      and w = "\<lparr>in_id = Some ''1'', in_username = Some ''alice'', in_password = Some ''s3cr3t''\<rparr>"]
    secret_never_presented [where s = initial and t = initial
      and d = "\<lparr>in_id = Some ''1'', in_username = None, in_password = None\<rparr>"
      and d' = "\<lparr>in_id = Some ''1'', in_username = None, in_password = None\<rparr>"
      and p = "Some ''s3cr3t''" and q = "Some ''hunter2''"
      and w = "\<lparr>in_id = Some ''1'', in_username = Some ''alice'', in_password = Some ''s3cr3t''\<rparr>"]
  by (simp add: program_defs)

section \<open>The view model: last write wins\<close>

text \<open>
  Claim C10. \<^verbatim>\<open>Presenter.present\<close> assigns the id and the username of the one view
  model object and nothing else of it (the rest of the object, and the stored items, are
  as before); a second \<^verbatim>\<open>present\<close> overwrites what the first assigned. After any
  sequence of operations followed by an operation that returns, the view model holds
  exactly the id and the username of that last operation's result; an operation that
  throws leaves the view model as it was.
\<close>

theorem present_last_write_wins:
  "vm_id (present out vm) = Some (out_id out)
   \<and> vm_username (present out vm) = Some (out_username out)
   \<and> ViewModel.more (present out vm) = ViewModel.more vm
   \<and> present out' (present out vm) = present out' vm
   \<and> items (Presenter_present out s) = items s
   \<and> (fst (exec op (steps ops s)) = None \<longrightarrow>
        (\<exists>res. presented (issued op (steps ops s)) = [res]
           \<and> viewModel (steps (ops @ [op]) s)
               = \<lparr>vm_id = Some (out_id res), vm_username = Some (out_username res)\<rparr>))
   \<and> (fst (exec op s) \<noteq> None \<longrightarrow> viewModel (snd (exec op s)) = viewModel s)"
proof -
  have last: "\<exists>res. presented (issued op t) = [res]
           \<and> viewModel (steps (ops @ [op]) s)
               = \<lparr>vm_id = Some (out_id res), vm_username = Some (out_username res)\<rparr>"
    if t: "t = steps ops s" and ok: "fst (exec op t) = None" for t
  proof -
    from exec_presented [OF ok] obtain res where
      res: "presented (issued op t) = [res]" "viewModel (snd (exec op t)) = present res (viewModel t)"
      by blast
    have "present res (viewModel t) = \<lparr>vm_id = Some (out_id res), vm_username = Some (out_username res)\<rparr>"
      by (simp add: present_def)
    with res t show ?thesis
      by (simp add: steps_append)
  qed
  show ?thesis
    using last [OF refl] exec_failed [of op s]
    by (simp add: present_def Presenter_present_def)
qed

theorem present_last_write_wins_witness:
  "viewModel (steps [CreateOp \<lparr>in_id = Some ''1'', in_username = Some ''alice'', in_password = Some ''s3cr3t''\<rparr>,
                     CreateOp \<lparr>in_id = Some ''2'', in_username = Some ''bob'', in_password = Some ''pw''\<rparr>,
                     GetOp \<lparr>in_id = Some ''1'', in_username = None, in_password = None\<rparr>] initial)
     = \<lparr>vm_id = Some ''1'', vm_username = Some ''alice''\<rparr>
   \<and> viewModel (steps [CreateOp \<lparr>in_id = Some ''1'', in_username = Some ''alice'', in_password = Some ''s3cr3t''\<rparr>,
                     CreateOp \<lparr>in_id = Some ''2'', in_username = Some ''bob'', in_password = Some ''pw''\<rparr>] initial)
     = \<lparr>vm_id = Some ''2'', vm_username = Some ''bob''\<rparr>
   \<and> viewModel (snd (exec (GetOp \<lparr>in_id = Some ''1'', in_username = None, in_password = None\<rparr>)
                     initial))
     = viewModel initial"
  using present_last_write_wins [where op = "GetOp \<lparr>in_id = Some ''1'', in_username = None, in_password = None\<rparr>"
      and ops = "[CreateOp \<lparr>in_id = Some ''1'', in_username = Some ''alice'', in_password = Some ''s3cr3t''\<rparr>,
                  CreateOp \<lparr>in_id = Some ''2'', in_username = Some ''bob'', in_password = Some ''pw''\<rparr>]"
      and s = initial]
  by (simp add: program_defs)

section \<open>The controller's write trigger\<close>

text \<open>
  Claim C3 says the write trigger takes the id, the username and the password and packs
  all three into the request. \<^verbatim>\<open>Controller.createUser(id, username)\<close> has no password
  parameter and passes \<^verbatim>\<open>{ id, username }\<close>, so the interactor, which requires a
  password, rejects the request: \<^verbatim>\<open>createUser("1", "alice")\<close> on the initial system
  throws "password is required" and changes nothing.
\<close>

theorem Controller_createUser_drops_password:
  "Controller_createUser ''1'' ''alice'' initial = (Some (Error ''password is required''), initial)"
  by (simp add: Controller_createUser_def executeCreateUser_def)

text \<open>The same holds for every id, username and state: the write trigger never returns.\<close>

lemma Controller_createUser_never_returns:
  "fst (Controller_createUser i u s) \<noteq> None \<and> snd (Controller_createUser i u s) = s"
  by (simp add: Controller_createUser_def executeCreateUser_def)

end
